theory Spec2Isabelle
  imports Complex_Main "HOL-Library.Sublist"
begin

section \<open>Python values used by \<^verbatim>\<open>customize_sys_hooks.py\<close>\<close>

text \<open>
  A Python \<^verbatim>\<open>str\<close> is a sequence of Unicode code points, so it is a list of
  naturals here; slicing, \<^verbatim>\<open>len\<close> and \<^verbatim>\<open>startswith\<close> count code points as the
  source does. \<open>u\<close> turns an ASCII literal of the source into such a string.
\<close>

type_synonym pystr = "nat list"

definition u :: "string \<Rightarrow> pystr" where
  "u s = map of_char s"

definition TAB :: nat where "TAB = 9"
definition NL :: nat where "NL = 10"
definition APOSTROPHE :: nat where "APOSTROPHE = 39"

text \<open>\<^verbatim>\<open>u"\N{COMBINING LOW LINE}"\<close> is the single code point U+0332.\<close>

definition COMBINING_LOW_LINE :: pystr where
  "COMBINING_LOW_LINE = [818]"

definition startswith :: "pystr \<Rightarrow> pystr \<Rightarrow> bool" where
  "startswith s p = (take (length p) s = p)"

definition endswith :: "pystr \<Rightarrow> pystr \<Rightarrow> bool" where
  "endswith s p = (length p \<le> length s \<and> drop (length s - length p) s = p)"

text \<open>\<^verbatim>\<open>str.isspace\<close> of one code point, as \<^verbatim>\<open>rstrip()\<close> without argument uses it.\<close>

definition py_isspace :: "nat \<Rightarrow> bool" where
  "py_isspace c =
     ((9 \<le> c \<and> c \<le> 13) \<or> (28 \<le> c \<and> c \<le> 32) \<or> c = 133 \<or> c = 160 \<or> c = 5760 \<or>
      (8192 \<le> c \<and> c \<le> 8202) \<or> c = 8232 \<or> c = 8233 \<or> c = 8239 \<or> c = 8287 \<or>
      c = 12288)"

definition rstrip :: "pystr \<Rightarrow> pystr" where
  "rstrip s = rev (dropWhile py_isspace (rev s))"

definition rstrip_chars :: "nat \<Rightarrow> pystr \<Rightarrow> pystr" where
  "rstrip_chars c s = rev (dropWhile (\<lambda>x. x = c) (rev s))"

text \<open>\<^verbatim>\<open>s.replace(' ', '%20')\<close>.\<close>

fun replace_space :: "pystr \<Rightarrow> pystr" where
  "replace_space [] = []"
| "replace_space (c # cs) =
     (if c = 32 then [37, 50, 48] @ replace_space cs else c # replace_space cs)"

text \<open>\<^verbatim>\<open>str(n)\<close> of an integer: decimal digits, with a minus sign below zero.\<close>

function str_nat :: "nat \<Rightarrow> pystr" where
  "str_nat n = (if n < 10 then [48 + n] else str_nat (n div 10) @ [48 + n mod 10])"
  by pat_completeness auto
termination
  by (relation "measure (\<lambda>n. n)") auto

declare str_nat.simps [simp del]

definition py_str_int :: "int \<Rightarrow> pystr" where
  "py_str_int i = (if i < 0 then 45 # str_nat (nat (- i)) else str_nat (nat i))"

text \<open>
  Slices \<^verbatim>\<open>s[:k]\<close> and \<^verbatim>\<open>s[k:]\<close>; \<open>None\<close> is Python's \<^verbatim>\<open>None\<close> bound and a negative
  bound counts from the end.
\<close>

definition slice_bound :: "pystr \<Rightarrow> int \<Rightarrow> nat" where
  "slice_bound s k = (if k < 0 then nat (int (length s) + k) else nat k)"

definition slice_to :: "pystr \<Rightarrow> int option \<Rightarrow> pystr" where
  "slice_to s k = (case k of None \<Rightarrow> s | Some i \<Rightarrow> take (slice_bound s i) s)"

definition slice_from :: "pystr \<Rightarrow> int option \<Rightarrow> pystr" where
  "slice_from s k = (case k of None \<Rightarrow> s | Some i \<Rightarrow> drop (slice_bound s i) s)"

text \<open>
  \<^verbatim>\<open>round(x, 2)\<close> on the exact value of \<open>x\<close>: the nearest multiple of 0.01, and of two
  that are equally near the even one. On a float Python rounds the float's exact value
  in this way and returns the float nearest to the result.
\<close>

definition round_half_even :: "rat \<Rightarrow> int" where
  "round_half_even x =
     (let f = \<lfloor>x\<rfloor>; d = x - of_int f
      in if d < 1 / 2 then f else if 1 / 2 < d then f + 1 else if even f then f else f + 1)"

definition decimal_round2 :: "rat \<Rightarrow> rat" where
  "decimal_round2 x = of_int (round_half_even (x * 100)) / 100"

text \<open>
  The exceptions the hooks can meet. \<open>KeyError k\<close>: a theme lookup found no entry \<open>k\<close>.
  \<open>TypeError\<close>: a call that does not fit the signature of the function called.
  \<open>AttributeError\<close>: an attribute of a syntax error was read from a value that has
  none. \<open>ReprError\<close> and \<open>StrError\<close>: an exception of some class derived from
  \<^verbatim>\<open>Exception\<close>, raised by the \<^verbatim>\<open>__repr__\<close> of a displayed object or by the \<^verbatim>\<open>__str__\<close> of
  an exception value. \<open>KeyboardInterrupt\<close> and \<open>SystemExit\<close>, which such a method can
  raise as well, derive from \<^verbatim>\<open>BaseException\<close> only.
\<close>

datatype pyerr =
    KeyError pystr | TypeError | AttributeError | ReprError pystr | StrError pystr
  | KeyboardInterrupt | SystemExit

text \<open>What the clause \<^verbatim>\<open>except Exception as err\<close> catches: \<^verbatim>\<open>isinstance(err, Exception)\<close>.\<close>

definition is_Exception :: "pyerr \<Rightarrow> bool" where
  "is_Exception err = (case err of KeyboardInterrupt \<Rightarrow> False | SystemExit \<Rightarrow> False | _ \<Rightarrow> True)"

text \<open>
  What reaches the console, in order: \<^verbatim>\<open>console.set_color(*c)\<close>, the text of one
  \<^verbatim>\<open>print\<close> call (with its line end), \<^verbatim>\<open>console.write_link(text, url)\<close>, and the raw
  traceback that \<^verbatim>\<open>traceback.print_exc()\<close> prints for the exception being handled.
  A finite Python float is a rational number, so channels are of type \<open>rat\<close>.
\<close>

datatype event =
    SetColor "rat \<times> rat \<times> rat"
  | Write pystr
  | WriteLink pystr pystr
  | PrintExc pyerr

text \<open>
  The outcome of running statements: the exception that left them (\<open>None\<close> when they
  ran to the end) and everything written to the console until then. None of the
  functions below reads the console back, so what they wrote is all that is kept of it.
\<close>

type_synonym outcome = "pyerr option \<times> event list"

text \<open>Statements one after the other: the first exception ends the sequence.\<close>

fun stmts :: "outcome list \<Rightarrow> outcome" where
  "stmts [] = (None, [])"
| "stmts ((Some e, ev) # rest) = (Some e, ev)"
| "stmts ((None, ev) # rest) = (case stmts rest of (r, ev') \<Rightarrow> (r, ev @ ev'))"

definition print_end :: "pystr \<Rightarrow> outcome" where
  \<comment> \<open>\<^verbatim>\<open>print(s, end=u"")\<close>\<close>
  "print_end s = (None, [Write s])"

definition print_line :: "pystr \<Rightarrow> outcome" where
  \<comment> \<open>\<^verbatim>\<open>print(s)\<close>; \<^verbatim>\<open>print()\<close> is \<open>print_line []\<close>\<close>
  "print_line s = (None, [Write (s @ [NL])])"

definition console_set_color :: "rat \<times> rat \<times> rat \<Rightarrow> outcome" where
  "console_set_color c = (None, [SetColor c])"

section \<open>The environment read by \<^verbatim>\<open>run()\<close>\<close>

text \<open>
  What \<^verbatim>\<open>run()\<close> takes from outside the file: the home directory
  (\<^verbatim>\<open>os.path.expanduser(u"~")\<close>), \<^verbatim>\<open>sys.executable\<close>, \<^verbatim>\<open>os.path.realpath\<close>, the theme
  dictionary (its top-level colours, and the \<^verbatim>\<open>'color'\<close> of each entry of
  \<^verbatim>\<open>"scopes"\<close>), the components that \<^verbatim>\<open>UIColor.colorWithHexString_\<close> gives a colour
  string, read as floats, the float operations \<^verbatim>\<open>round(x, 2)\<close>, \<^verbatim>\<open>+\<close> and \<^verbatim>\<open>/\<close>, whose
  IEEE rounding is not fixed here, and the decoding of bytes as UTF-8 with
  replacement. The theme is read with subscripts (\<^verbatim>\<open>theme_dict["error_text"]\<close>): a key
  it does not have raises \<^verbatim>\<open>KeyError\<close>, as the subscript of a mapping does. The console
  and \<^verbatim>\<open>print\<close> are taken not to fail.
\<close>

record env =
  home :: pystr
  sys_executable :: pystr
  realpath :: "pystr \<Rightarrow> pystr"
  theme_dict :: "pystr \<rightharpoonup> pystr"
  theme_scopes :: "pystr \<rightharpoonup> pystr"
  colorWithHexString :: "pystr \<Rightarrow> rat \<times> rat \<times> rat \<times> rat"
  float_round2 :: "rat \<Rightarrow> rat"
  float_add :: "rat \<Rightarrow> rat \<Rightarrow> rat"
  float_div :: "rat \<Rightarrow> rat \<Rightarrow> rat"
  decode_utf8_replace :: "nat list \<Rightarrow> pystr"

text \<open>\<^verbatim>\<open>os.sep\<close>, \<^verbatim>\<open>os.path.basename\<close> and \<^verbatim>\<open>os.path.dirname\<close> of \<^verbatim>\<open>posixpath\<close>.\<close>

definition os_sep :: pystr where
  "os_sep = [47]"

definition basename :: "pystr \<Rightarrow> pystr" where
  "basename p = rev (takeWhile (\<lambda>c. c \<noteq> 47) (rev p))"

definition dirname :: "pystr \<Rightarrow> pystr" where
  "dirname p =
     (let head = rev (dropWhile (\<lambda>c. c \<noteq> 47) (rev p))
      in if head \<noteq> [] \<and> head \<noteq> replicate (length head) 47
         then rstrip_chars 47 head else head)"

definition APP_GROUP_DIR :: "env \<Rightarrow> pystr" where
  "APP_GROUP_DIR e =
     (let d = home e;
          d = (if basename d = u ''Pythonista3'' then dirname d else d)
      in d @ os_sep)"

definition APP_DIR :: "env \<Rightarrow> pystr" where
  "APP_DIR e = [] @ dirname (dirname (sys_executable e)) @ os_sep"

definition REMOVE_PREFIXES :: "env \<Rightarrow> pystr list" where
  "REMOVE_PREFIXES e = [APP_GROUP_DIR e, APP_DIR e]"

section \<open>\<^verbatim>\<open>write_filename\<close>\<close>

text \<open>
  The loop \<^verbatim>\<open>for prefix in REMOVE_PREFIXES\<close>: the test reads \<^verbatim>\<open>short_path\<close>, the cut is
  taken from \<^verbatim>\<open>path\<close>, and \<^verbatim>\<open>break\<close> leaves at the first match. The result is the
  \<^verbatim>\<open>short_path\<close> after the loop.
\<close>

fun remove_prefix_loop :: "pystr \<Rightarrow> pystr \<Rightarrow> pystr list \<Rightarrow> pystr" where
  "remove_prefix_loop path short_path [] = short_path"
| "remove_prefix_loop path short_path (pfx # rest) =
     (if startswith short_path pfx then drop (length pfx) path
      else remove_prefix_loop path short_path rest)"

definition short_path_of :: "env \<Rightarrow> pystr \<Rightarrow> pystr" where
  "short_path_of e path = remove_prefix_loop path path (REMOVE_PREFIXES e)"

definition is_marker :: "pystr \<Rightarrow> bool" where
  \<comment> \<open>\<^verbatim>\<open>path.startswith(u"<") and path.endswith(u">")\<close>\<close>
  "is_marker path = (startswith path (u ''<'') \<and> endswith path (u ''>''))"

definition editor_url :: "env \<Rightarrow> pystr \<Rightarrow> int \<Rightarrow> pystr" where
  "editor_url e path lineno =
     (if basename (sys_executable e) = u ''Pythonista3''
      then u ''pythonista3://'' else u ''pythonista://'') @
     replace_space
       (u ''?exec=import editor;%20editor.open_file('' @ [APOSTROPHE] @ realpath e path @
        [APOSTROPHE] @ u '', new_tab %3D True); editor.annotate_line('' @
        py_str_int lineno @ u '')'')"

definition write_filename :: "env \<Rightarrow> pystr \<Rightarrow> int \<Rightarrow> outcome" where
  "write_filename e path lineno =
     (if is_marker path then print_end path
      else (None, [WriteLink (short_path_of e path) (editor_url e path lineno)]))"

text \<open>
  A call of \<^verbatim>\<open>write_filename\<close> with its positional arguments. Both parameters are
  required: Python binds the arguments before the body runs and raises
  \<^verbatim>\<open>TypeError\<close> when \<^verbatim>\<open>lineno\<close> gets none.
\<close>

fun call_write_filename :: "env \<Rightarrow> pystr \<Rightarrow> int option \<Rightarrow> outcome" where
  "call_write_filename e path (Some lineno) = write_filename e path lineno"
| "call_write_filename e path None = (Some TypeError, [])"

section \<open>\<^verbatim>\<open>hex2rgb\<close> and \<^verbatim>\<open>set_color\<close>\<close>

definition hex2rgb :: "env \<Rightarrow> pystr \<Rightarrow> rat \<times> rat \<times> rat" where
  "hex2rgb e hexcolor =
     (case colorWithHexString e hexcolor of
        (r, g, b, a) \<Rightarrow> (float_round2 e r, float_round2 e g, float_round2 e b))"

text \<open>The values of \<^verbatim>\<open>type_text\<close> that the file passes to \<^verbatim>\<open>set_color\<close>.\<close>

datatype type_text = Default | Default_text | Filename | Lineno | Funcname

definition thcolor :: "type_text \<Rightarrow> pystr" where
  "thcolor t =
     (case t of Filename \<Rightarrow> u ''default'' | Lineno \<Rightarrow> u ''number''
      | Funcname \<Rightarrow> u ''function'' | _ \<Rightarrow> [])"

definition mean_color :: "env \<Rightarrow> rat \<times> rat \<times> rat \<Rightarrow> rat \<times> rat \<times> rat \<Rightarrow> rat \<times> rat \<times> rat" where
  "mean_color e dtrgb default_error_color =
     (case (dtrgb, default_error_color) of
        ((r1, g1, b1), (r2, g2, b2)) \<Rightarrow>
          (float_round2 e (float_div e (float_add e r1 r2) 2),
           float_round2 e (float_div e (float_add e g1 g2) 2),
           float_round2 e (float_div e (float_add e b1 b2) 2)))"

definition set_color :: "env \<Rightarrow> type_text \<Rightarrow> outcome" where
  "set_color e t =
     (case theme_dict e (u ''error_text'') of
        None \<Rightarrow> (Some (KeyError (u ''error_text'')), [])
      | Some err_hex \<Rightarrow>
          (let default_error_color = hex2rgb e err_hex in
           if t = Default then console_set_color default_error_color
           else if t = Default_text then
             (case theme_dict e (u ''default_text'') of
                None \<Rightarrow> (Some (KeyError (u ''default_text'')), [])
              | Some h \<Rightarrow> console_set_color (hex2rgb e h))
           else
             (case theme_scopes e (thcolor t) of
                None \<Rightarrow> (Some (KeyError (thcolor t)), [])
              | Some h \<Rightarrow>
                  console_set_color (mean_color e (hex2rgb e h) default_error_color))))"

section \<open>\<^verbatim>\<open>displayhook\<close>\<close>

text \<open>
  A displayed object: \<^verbatim>\<open>None\<close>, or an object with an identity and with what
  \<^verbatim>\<open>repr\<close> does on it (an exception, or the text).
\<close>

datatype pyval = PyNone | PyObj (obj_id: nat) (obj_repr: "pyerr + pystr")

text \<open>
  The two attributes of the \<^verbatim>\<open>builtins\<close> module the hook uses: \<^verbatim>\<open>Out\<close> (\<open>None\<close> when
  the attribute does not exist) and \<^verbatim>\<open>_\<close>.
\<close>

record builtins =
  b_Out :: "pyval list option"
  b_underscore :: "pyval option"

definition Out_list :: "builtins \<Rightarrow> pyval list" where
  "Out_list b = (case b_Out b of None \<Rightarrow> [] | Some xs \<Rightarrow> xs)"

definition print_repr :: "pyval \<Rightarrow> outcome" where
  \<comment> \<open>\<^verbatim>\<open>print(repr(obj))\<close>, for an \<open>obj\<close> that is not \<^verbatim>\<open>None\<close>\<close>
  "print_repr obj =
     (case obj of PyNone \<Rightarrow> print_line (u ''None'')
      | PyObj i r \<Rightarrow> (case r of Inl err \<Rightarrow> (Some err, []) | Inr s \<Rightarrow> print_line s))"

definition set_color_tint :: "env \<Rightarrow> outcome" where
  \<comment> \<open>\<^verbatim>\<open>console.set_color(*hex2rgb(theme_dict["text_selection_tint"]))\<close>\<close>
  "set_color_tint e =
     (case theme_dict e (u ''text_selection_tint'') of
        None \<Rightarrow> (Some (KeyError (u ''text_selection_tint'')), [])
      | Some h \<Rightarrow> console_set_color (hex2rgb e h))"

definition displayhook :: "env \<Rightarrow> pyval \<Rightarrow> builtins \<Rightarrow> outcome \<times> builtins" where
  "displayhook e obj b =
     (if obj = PyNone then ((None, []), b)
      else
        (let b1 = (case b_Out b of None \<Rightarrow> b\<lparr>b_Out := Some []\<rparr> | Some xs \<Rightarrow> b);
             b2 = b1\<lparr>b_underscore := Some obj\<rparr>;
             b3 = b2\<lparr>b_Out := Some (Out_list b2 @ [obj])\<rparr>
         in (stmts
               [console_set_color (0, 1 / 2, 0),
                print_end (u ''Out['' @ py_str_int (int (length (Out_list b3)) - 1) @ u '']''),
                set_color e Default_text,
                print_end (u '' = ''),
                set_color_tint e,
                print_repr obj,
                set_color e Default_text],
             b3)))"

text \<open>
  The interactive session calls the hook once for each result, in order. An exception
  leaving the hook is reported and the session goes on with the \<^verbatim>\<open>builtins\<close> as the
  hook left them; the console events of the calls are collected in order.
\<close>

fun display_all :: "env \<Rightarrow> pyval list \<Rightarrow> builtins \<Rightarrow> event list \<times> builtins" where
  "display_all e [] b = ([], b)"
| "display_all e (v # vs) b =
     (case displayhook e v b of
        ((r, ev), b') \<Rightarrow> (case display_all e vs b' of (evs, b'') \<Rightarrow> (ev @ evs, b'')))"

section \<open>\<^verbatim>\<open>_excepthook\<close> and \<^verbatim>\<open>excepthook\<close>\<close>

text \<open>
  A source text as \<^verbatim>\<open>traceback.extract_tb\<close> or a syntax error gives it: \<^verbatim>\<open>None\<close>, a
  \<^verbatim>\<open>str\<close>, or \<^verbatim>\<open>bytes\<close>.
\<close>

datatype pytext = TNone | TStr pystr | TBytes "nat list"

text \<open>One entry of \<^verbatim>\<open>traceback.extract_tb\<close>: \<^verbatim>\<open>(filename, lineno, funcname, text)\<close>.\<close>

type_synonym frame = "pystr \<times> int \<times> pystr \<times> pytext"

text \<open>
  Of an exception type: \<^verbatim>\<open>__module__\<close>, \<^verbatim>\<open>__qualname__\<close> (\<^verbatim>\<open>__name__\<close> where there is
  none) and whether it is a subclass of \<^verbatim>\<open>SyntaxError\<close>.
\<close>

record exc_type =
  et_module :: pystr
  et_qualname :: pystr
  et_is_SyntaxError :: bool

text \<open>The attributes of a syntax error; a \<open>se_msg\<close> that is \<^verbatim>\<open>None\<close> is the empty text.\<close>

record syntax_attrs =
  se_filename :: pystr
  se_lineno :: int
  se_offset :: "int option"
  se_text :: pytext
  se_msg :: pystr

text \<open>
  An exception value: its \<^verbatim>\<open>__class__\<close>, the frames of its \<^verbatim>\<open>__traceback__\<close>, what
  \<^verbatim>\<open>str\<close> does on it (its \<^verbatim>\<open>__str__\<close> is code of the program: it raises, or returns the
  text), its syntax-error attributes if it has them, and \<^verbatim>\<open>__cause__\<close>, \<^verbatim>\<open>__context__\<close>
  and \<^verbatim>\<open>__suppress_context__\<close>. Chains are finite.
\<close>

datatype exc_value =
  ExcValue (ev_class: exc_type) (ev_traceback: "frame list") (ev_str: "pyerr + pystr")
    (ev_syntax: "syntax_attrs option") (ev_cause: "exc_value option")
    (ev_context: "exc_value option") (ev_suppress_context: bool)

definition decoded :: "env \<Rightarrow> pytext \<Rightarrow> pystr option" where
  \<comment> \<open>\<^verbatim>\<open>if isinstance(text, bytes): text = text.decode(u"utf-8", u"replace")\<close>\<close>
  "decoded e t =
     (case t of TNone \<Rightarrow> None | TStr s \<Rightarrow> Some s | TBytes bs \<Rightarrow> Some (decode_utf8_replace e bs))"

definition text_or :: "pystr option \<Rightarrow> pystr \<Rightarrow> pystr" where
  \<comment> \<open>\<^verbatim>\<open>text or d\<close>: \<open>d\<close> when the text is \<^verbatim>\<open>None\<close> or empty\<close>
  "text_or t d = (case t of None \<Rightarrow> d | Some s \<Rightarrow> if s = [] then d else s)"

definition render_frame :: "env \<Rightarrow> frame \<Rightarrow> outcome" where
  \<comment> \<open>the body of the loop over \<^verbatim>\<open>traceback.extract_tb(exc_traceback)\<close>\<close>
  "render_frame e fr =
     (case fr of (filename, lineno, funcname, text) \<Rightarrow>
        stmts
          [set_color e Default,
           print_end ([TAB] @ u ''File ''),
           set_color e Filename,
           call_write_filename e filename (Some lineno),
           set_color e Default,
           print_end (u '', line ''),
           set_color e Lineno,
           print_end (py_str_int lineno),
           set_color e Default,
           print_end (u '', in ''),
           set_color e Funcname,
           print_end funcname,
           set_color e Default,
           print_line (u '':''),
           set_color e Default,
           print_line ([TAB, TAB] @ text_or (decoded e text) (u ''# Source code unavailable'')),
           print_line []])"

definition render_syntax_error :: "env \<Rightarrow> exc_value \<Rightarrow> outcome" where
  \<comment> \<open>the body of \<^verbatim>\<open>if issubclass(exc_type, SyntaxError):\<close>\<close>
  "render_syntax_error e exc_value =
     stmts
       [set_color e Default,
        print_end ([TAB] @ u ''File ''),
        set_color e Filename,
        (case ev_syntax exc_value of
           None \<Rightarrow> (Some AttributeError, [])
         | Some se \<Rightarrow> call_write_filename e (se_filename se) None),
        set_color e Default,
        print_end (u '', line ''),
        set_color e Lineno,
        (case ev_syntax exc_value of
           None \<Rightarrow> (Some AttributeError, [])
         | Some se \<Rightarrow> print_end (py_str_int (se_lineno se))),
        set_color e Default,
        print_line (u '':''),
        (case ev_syntax exc_value of
           None \<Rightarrow> (Some AttributeError, [])
         | Some se \<Rightarrow>
             (case decoded e (se_text se) of
                None \<Rightarrow>
                  stmts [set_color e Default,
                         print_line ([TAB, TAB] @ u ''# Source code unavailable'')]
              | Some etext \<Rightarrow>
                  stmts [set_color e Default,
                         print_end ([TAB, TAB] @ slice_to etext (se_offset se)),
                         console_set_color (3 / 4, 0, 0),
                         print_line (COMBINING_LOW_LINE @
                                     rstrip (slice_from etext (se_offset se)))]))]"

definition exc_msg :: "exc_type \<Rightarrow> exc_value \<Rightarrow> pyerr + pystr" where
  \<comment> \<open>\<^verbatim>\<open>exc_value.msg if issubclass(exc_type, SyntaxError) else str(exc_value)\<close>\<close>
  "exc_msg exc_type exc_value =
     (if et_is_SyntaxError exc_type
      then (case ev_syntax exc_value of None \<Rightarrow> Inl AttributeError | Some se \<Rightarrow> Inr (se_msg se))
      else ev_str exc_value)"

definition underscore_excepthook :: "env \<Rightarrow> exc_type \<Rightarrow> exc_value \<Rightarrow> frame list \<Rightarrow> outcome" where
  \<comment> \<open>\<^verbatim>\<open>_excepthook(exc_type, exc_value, exc_traceback)\<close>\<close>
  "underscore_excepthook e exc_type exc_value exc_traceback =
     stmts
       [set_color e Default,
        print_line (u ''Traceback (most recent call last):''),
        stmts (map (render_frame e) exc_traceback),
        (if et_is_SyntaxError exc_type then render_syntax_error e exc_value else (None, [])),
        set_color e Filename,
        print_end (et_module exc_type),
        set_color e Default,
        print_end (u ''.''),
        set_color e Funcname,
        print_end (et_qualname exc_type),
        (case exc_msg exc_type exc_value of
           Inl err \<Rightarrow> (Some err, [])
         | Inr msg \<Rightarrow>
             (if msg \<noteq> [] then
                stmts [set_color e Default, print_end (u '': ''), print_end msg]
              else (None, []))),
        print_line []]"

definition CAUSE_LINE :: pystr where
  "CAUSE_LINE = u ''The above exception was the direct cause of the following exception:''"

definition CONTEXT_LINE :: pystr where
  "CONTEXT_LINE = u ''During handling of the above exception, another exception occurred:''"

text \<open>
  What follows the recursive call in both branches: \<^verbatim>\<open>console.set_color(0.75, 0.0, 0.0)\<close>,
  \<^verbatim>\<open>print()\<close>, the sentence, \<^verbatim>\<open>print()\<close>.
\<close>

definition separator :: "pystr \<Rightarrow> outcome list" where
  "separator line =
     [console_set_color (3 / 4, 0, 0), print_line [], print_line line, print_line []]"

text \<open>
  The clauses \<^verbatim>\<open>except Exception as err: traceback.print_exc()\<close> and
  \<^verbatim>\<open>finally: set_color("default_text")\<close> around the outcome of the \<^verbatim>\<open>try\<close> body. An
  exception of the body that is an instance of \<^verbatim>\<open>Exception\<close> is handled by printing its
  traceback; any other stays pending. The \<^verbatim>\<open>finally\<close> clause runs in every case: an
  exception it raises leaves the function in place of the pending one, and otherwise
  the pending one does.
\<close>

definition except_finally :: "env \<Rightarrow> outcome \<Rightarrow> outcome" where
  "except_finally e body =
     (case body of (r, ev) \<Rightarrow>
        (case (case r of None \<Rightarrow> (None, [])
               | Some err \<Rightarrow>
                   if is_Exception err then (None, [PrintExc err]) else (Some err, [])) of
           (pending, ev1) \<Rightarrow>
             (case set_color e Default_text of
                (Some err', ev2) \<Rightarrow> (Some err', ev @ ev1 @ ev2)
              | (None, ev2) \<Rightarrow> (pending, ev @ ev1 @ ev2))))"

function excepthook :: "env \<Rightarrow> exc_type \<Rightarrow> exc_value \<Rightarrow> frame list \<Rightarrow> outcome" where
  "excepthook e exc_type exc_value exc_traceback =
     except_finally e
       (stmts
          [(case ev_cause exc_value of
              Some c \<Rightarrow>
                stmts (excepthook e (ev_class c) c (ev_traceback c) # separator CAUSE_LINE)
            | None \<Rightarrow>
                (case ev_context exc_value of
                   Some c \<Rightarrow>
                     (if \<not> ev_suppress_context exc_value then
                        stmts (excepthook e (ev_class c) c (ev_traceback c) #
                               separator CONTEXT_LINE)
                      else (None, []))
                 | None \<Rightarrow> (None, []))),
           underscore_excepthook e exc_type exc_value exc_traceback])"
  by pat_completeness auto
termination
proof (relation "measure (\<lambda>(e, exc_type, exc_value, exc_traceback). size exc_value)")
  show "wf (measure (\<lambda>(e, exc_type, exc_value, exc_traceback). size exc_value))"
    by simp
next
  fix e :: env and exc_type :: exc_type and exc_value c :: exc_value
    and exc_traceback :: "frame list"
  assume "ev_cause exc_value = Some c"
  then show "((e, ev_class c, c, ev_traceback c), (e, exc_type, exc_value, exc_traceback))
      \<in> measure (\<lambda>(e, exc_type, exc_value, exc_traceback). size exc_value)"
    by (cases exc_value) simp
next
  fix e :: env and exc_type :: exc_type and exc_value c :: exc_value
    and exc_traceback :: "frame list"
  assume "ev_context exc_value = Some c"
  then show "((e, ev_class c, c, ev_traceback c), (e, exc_type, exc_value, exc_traceback))
      \<in> measure (\<lambda>(e, exc_type, exc_value, exc_traceback). size exc_value)"
    by (cases exc_value) simp
qed

declare excepthook.simps [simp del]

text \<open>An outcome that is no exception outside \<^verbatim>\<open>Exception\<close>.\<close>

definition only_Exception :: "outcome \<Rightarrow> bool" where
  "only_Exception a = (case fst a of None \<Rightarrow> True | Some err \<Rightarrow> is_Exception err)"



section \<open>Example inputs\<close>

text \<open>
  A theme with every colour the hooks look up, under a home directory \<^verbatim>\<open>/h\<close>, and a few
  exceptions: a plain \<^verbatim>\<open>ValueError\<close>, one raised \<^verbatim>\<open>from\<close> it while another was being
  handled, and the \<^verbatim>\<open>SyntaxError\<close> of the line \<^verbatim>\<open>x = = 1\<close>. For the display hook: an
  object whose \<^verbatim>\<open>repr\<close> is \<^verbatim>\<open>2\<close>, one whose \<^verbatim>\<open>__repr__\<close> raises, and the \<^verbatim>\<open>builtins\<close> of
  a fresh session. Further: a \<^verbatim>\<open>ValueError\<close> whose \<^verbatim>\<open>__str__\<close> raises \<^verbatim>\<open>KeyboardInterrupt\<close>, the
  theme without its \<^verbatim>\<open>default_text\<close>, and a theme whose default scope has the red channel
  170/255 over a black error colour, with \<^verbatim>\<open>round(x, 2)\<close> as the exact decimal rounding.
\<close>

definition demo_rgba :: "pystr \<Rightarrow> rat \<times> rat \<times> rat \<times> rat" where
  "demo_rgba h =
     (if h = u ''#ff0000'' then (1, 0, 0, 1)
      else if h = u ''#0000ff'' then (0, 0, 1, 1) else (0, 0, 0, 1))"

definition demo_env :: env where
  "demo_env =
     \<lparr>home = u ''/h'', sys_executable = u ''/app/bin/python'', realpath = id,
      theme_dict = [u ''error_text'' \<mapsto> u ''#ff0000'', u ''default_text'' \<mapsto> u ''#000000'',
                    u ''text_selection_tint'' \<mapsto> u ''#0000ff''],
      theme_scopes = [u ''default'' \<mapsto> u ''#000000'', u ''number'' \<mapsto> u ''#0000ff'',
                      u ''function'' \<mapsto> u ''#0000ff''],
      colorWithHexString = demo_rgba, float_round2 = id, float_add = plus,
      float_div = divide, decode_utf8_replace = id\<rparr>"

definition demo_ValueError :: exc_type where
  "demo_ValueError =
     \<lparr>et_module = u ''builtins'', et_qualname = u ''ValueError'', et_is_SyntaxError = False\<rparr>"

definition demo_SyntaxError :: exc_type where
  "demo_SyntaxError =
     \<lparr>et_module = u ''builtins'', et_qualname = u ''SyntaxError'', et_is_SyntaxError = True\<rparr>"

definition demo_cause :: exc_value where
  "demo_cause = ExcValue demo_ValueError [] (Inr (u ''bad'')) None None None False"

definition demo_other :: exc_value where
  "demo_other =
     ExcValue demo_ValueError [(u ''<stdin>'', 1, u ''<module>'', TStr [])]
       (Inr (u ''other'')) None None None False"

definition demo_chained :: exc_value where
  "demo_chained =
     ExcValue demo_ValueError [(u ''/h/a.py'', 3, u ''f'', TStr (u ''g()''))]
       (Inr (u ''worse'')) None (Some demo_cause) (Some demo_other) True"

definition demo_syntax_error :: exc_value where
  "demo_syntax_error =
     ExcValue demo_SyntaxError [] (Inr (u ''invalid syntax (a.py, line 1)''))
       (Some \<lparr>se_filename = u ''/h/a.py'', se_lineno = 1, se_offset = Some 5,
              se_text = TStr (u ''x = = 1'' @ [NL]), se_msg = u ''invalid syntax''\<rparr>)
       None None False"

definition demo_interrupted :: exc_value where
  "demo_interrupted = ExcValue demo_ValueError [] (Inl KeyboardInterrupt) None None None False"

definition demo_no_default_text :: env where
  "demo_no_default_text = demo_env\<lparr>theme_dict := [u ''error_text'' \<mapsto> u ''#ff0000'']\<rparr>"

definition demo_blend_rgba :: "pystr \<Rightarrow> rat \<times> rat \<times> rat \<times> rat" where
  "demo_blend_rgba h = (if h = u ''#aa0000'' then (170 / 255, 0, 0, 1) else (0, 0, 0, 1))"

definition demo_blend_env :: env where
  "demo_blend_env =
     demo_env\<lparr>theme_dict := [u ''error_text'' \<mapsto> u ''#000000''],
              theme_scopes := [u ''default'' \<mapsto> u ''#aa0000''],
              colorWithHexString := demo_blend_rgba, float_round2 := decimal_round2\<rparr>"

definition demo_from_interrupted :: exc_value where
  "demo_from_interrupted =
     ExcValue demo_ValueError [] (Inr (u ''worse'')) None (Some demo_interrupted) None True"

definition demo_two :: pyval where
  "demo_two = PyObj 0 (Inr (u ''2''))"

definition demo_unprintable :: pyval where
  "demo_unprintable = PyObj 1 (Inl (ReprError (u ''boom'')))"

definition demo_fresh :: builtins where
  "demo_fresh = \<lparr>b_Out = None, b_underscore = None\<rparr>"

section \<open>Evaluation and sequencing lemmas\<close>

lemmas py_defs =
  u_def TAB_def NL_def APOSTROPHE_def startswith_def endswith_def rstrip_def rstrip_chars_def
  py_str_int_def str_nat.simps slice_bound_def slice_to_def slice_from_def
  print_end_def print_line_def console_set_color_def os_sep_def basename_def dirname_def
  APP_GROUP_DIR_def APP_DIR_def REMOVE_PREFIXES_def short_path_of_def is_marker_def
  editor_url_def write_filename_def hex2rgb_def thcolor_def mean_color_def set_color_def
  Out_list_def print_repr_def set_color_tint_def displayhook_def decoded_def text_or_def
  render_frame_def render_syntax_error_def exc_msg_def underscore_excepthook_def
  separator_def except_finally_def excepthook.simps is_Exception_def

lemmas demo_defs =
  demo_rgba_def demo_env_def demo_ValueError_def demo_SyntaxError_def demo_cause_def
  demo_other_def demo_chained_def demo_syntax_error_def demo_interrupted_def
  demo_no_default_text_def demo_from_interrupted_def

lemmas demo_value_defs = demo_two_def demo_unprintable_def demo_fresh_def

lemma demo_prefixes: "APP_GROUP_DIR demo_env = u ''/h/''" "APP_DIR demo_env = u ''/app/''"
  by (simp_all add: py_defs demo_defs)




lemma stmts_Cons:
  "stmts (a # rest) =
     (case a of (None, ev) \<Rightarrow> (case stmts rest of (r, ev') \<Rightarrow> (r, ev @ ev'))
      | (Some err, ev) \<Rightarrow> (Some err, ev))"
  by (cases a; cases "fst a") auto



lemma stmts_raises: "a \<in> set xs \<Longrightarrow> fst a \<noteq> None \<Longrightarrow> fst (stmts xs) \<noteq> None"
proof (induction xs)
  case Nil
  then show ?case by simp
next
  case (Cons x xs)
  show ?case
  proof (cases "fst x")
    case None
    with Cons show ?thesis
      by (cases x) (auto simp: case_prod_beta)
  next
    case (Some err)
    then show ?thesis
      by (cases x) auto
  qed
qed

lemma stmts_append_ok:
  "stmts (xs @ [(None, ev1), (None, ev2)]) =
     (case stmts xs of (None, ev) \<Rightarrow> (None, ev @ ev1 @ ev2) | (Some err, ev) \<Rightarrow> (Some err, ev))"
proof (induction xs)
  case Nil
  then show ?case by simp
next
  case (Cons x xs)
  show ?case
  proof (cases "fst x")
    case None
    then obtain ev where "x = (None, ev)"
      by (cases x) auto
    with Cons show ?thesis
      by (cases "stmts xs"; cases "fst (stmts xs)") auto
  next
    case (Some err)
    then obtain ev where "x = (Some err, ev)"
      by (cases x) auto
    then show ?thesis by simp
  qed
qed

section \<open>The exception hook\<close>




text \<open>
  Every exception that \<^verbatim>\<open>_excepthook\<close> raises is an instance of \<^verbatim>\<open>Exception\<close>, but for
  what \<^verbatim>\<open>str(exc_value)\<close> raises.
\<close>

lemma is_Exception_simps [simp]:
  "is_Exception (KeyError k)" "is_Exception TypeError" "is_Exception AttributeError"
  "is_Exception (ReprError s)" "is_Exception (StrError s)"
  "\<not> is_Exception KeyboardInterrupt" "\<not> is_Exception SystemExit"
  by (simp_all add: is_Exception_def)

lemma only_Exception_simps [simp]:
  "only_Exception (None, ev)" "only_Exception (Some err, ev) = is_Exception err"
  by (simp_all add: only_Exception_def)

lemma only_Exception_stmts: "list_all only_Exception xs \<Longrightarrow> only_Exception (stmts xs)"
proof (induction xs)
  case Nil
  then show ?case by simp
next
  case (Cons x xs)
  then have "only_Exception x" and rest: "only_Exception (stmts xs)"
    by simp_all
  show ?case
  proof (cases "fst x")
    case None
    with rest show ?thesis
      by (cases x; cases "stmts xs"; cases "fst (stmts xs)") auto
  next
    case (Some err)
    with \<open>only_Exception x\<close> show ?thesis
      by (cases x) auto
  qed
qed

lemma only_Exception_set_color [simp]: "only_Exception (set_color e t)"
  by (simp add: set_color_def console_set_color_def Let_def split: option.split)

lemma only_Exception_render_frame [simp]: "only_Exception (render_frame e fr)"
  by (cases fr)
    (simp add: render_frame_def only_Exception_stmts print_end_def print_line_def
      write_filename_def)

lemma only_Exception_render_syntax_error [simp]:
  "only_Exception (render_syntax_error e exc_value)"
  unfolding render_syntax_error_def
  by (rule only_Exception_stmts)
    (simp add: only_Exception_stmts print_end_def print_line_def console_set_color_def
      split: option.split)








text \<open>
  C2. The \<^verbatim>\<open>__context__\<close> of an exception value does not reach the output of the hook
  when the value has no \<^verbatim>\<open>__cause__\<close> and its \<^verbatim>\<open>__suppress_context__\<close> is true, nor
  when its \<^verbatim>\<open>__cause__\<close> is set: the hook does the same whatever the context is, and so
  the same as with no context at all.
\<close>

theorem excepthook_context_ignored:
  "excepthook e exc_type (ExcValue cls frames s syn None ctx True) exc_traceback =
     excepthook e exc_type (ExcValue cls frames s syn None ctx' True) exc_traceback \<and>
   excepthook e exc_type (ExcValue cls frames s syn (Some c) ctx suppress) exc_traceback =
     excepthook e exc_type (ExcValue cls frames s syn (Some c) ctx' suppress) exc_traceback"
  by (cases ctx; cases ctx')
    (simp_all add:
      excepthook.simps [of e exc_type "ExcValue cls frames s syn cause ctx suppress"
        for cause ctx suppress]
      underscore_excepthook_def render_syntax_error_def exc_msg_def)




text \<open>
  The statement \<^verbatim>\<open>write_filename(exc_value.filename)\<close> in the branch for syntax errors
  passes one argument to a function of two required parameters (the call in the frame
  loop passes both), so the branch raises before it writes the file name.
\<close>

lemma render_syntax_error_raises: "fst (render_syntax_error e exc_value) \<noteq> None"
proof -
  let ?call = "case ev_syntax exc_value of None \<Rightarrow> (Some AttributeError, [])
               | Some se \<Rightarrow> call_write_filename e (se_filename se) None"
  have "fst ?call \<noteq> None"
    by (simp split: option.split)
  moreover have "?call \<in> set
     [set_color e Default, print_end ([TAB] @ u ''File ''), set_color e Filename, ?call]"
    by simp
  ultimately have "fst (stmts [set_color e Default, print_end ([TAB] @ u ''File ''),
      set_color e Filename, ?call]) \<noteq> None"
    by (rule stmts_raises [rotated])
  then show ?thesis
    unfolding render_syntax_error_def
    by (simp add: stmts_Cons [of "set_color e t" for t] stmts_Cons [of "print_end s" for s]
        stmts_Cons [of ?call] split: prod.splits option.splits)
qed

text \<open>
  C4, as the code has it. For every exception type that is a subclass of
  \<^verbatim>\<open>SyntaxError\<close>, \<^verbatim>\<open>_excepthook\<close> raises: neither the location line of the error nor its
  source line, split at the offset and marked with the combining low line, is completed.
  On the syntax error of \<^verbatim>\<open>x = = 1\<close> the hook writes the header and \<^verbatim>\<open>File\<close>, then the raw
  traceback of the \<^verbatim>\<open>TypeError\<close>, and restores the text colour.
\<close>

theorem syntax_error_rendering_raises:
  assumes "et_is_SyntaxError exc_type"
  shows "fst (underscore_excepthook e exc_type exc_value exc_traceback) \<noteq> None"
  unfolding underscore_excepthook_def
  by (rule stmts_raises [where a = "render_syntax_error e exc_value"])
    (simp_all add: assms render_syntax_error_raises)

theorem syntax_error_rendering_raises_witness:
  "et_is_SyntaxError demo_SyntaxError \<and>
   fst (underscore_excepthook demo_env demo_SyntaxError demo_syntax_error []) \<noteq> None \<and>
   excepthook demo_env demo_SyntaxError demo_syntax_error [] =
     (None,
      [SetColor (1, 0, 0), Write (u ''Traceback (most recent call last):'' @ [NL]),
       SetColor (1, 0, 0), Write ([TAB] @ u ''File ''), SetColor (1 / 2, 0, 0),
       PrintExc TypeError, SetColor (0, 0, 0)])"
proof -
  have s: "et_is_SyntaxError demo_SyntaxError"
    by (simp add: demo_SyntaxError_def)
  have "excepthook demo_env demo_SyntaxError demo_syntax_error [] =
     (None,
      [SetColor (1, 0, 0), Write (u ''Traceback (most recent call last):'' @ [NL]),
       SetColor (1, 0, 0), Write ([TAB] @ u ''File ''), SetColor (1 / 2, 0, 0),
       PrintExc TypeError, SetColor (0, 0, 0)])"
    by (simp add: py_defs demo_defs)
  then show ?thesis
    using s syntax_error_rendering_raises [OF s, of demo_env demo_syntax_error "[]"]
    by simp
qed

lemma render_frame_unavailable:
  assumes "text_or (decoded e text) (u ''# Source code unavailable'') = u ''# Source code unavailable''"
    and "fst (render_frame e (filename, lineno, funcname, text)) = None"
  shows "\<exists>evs. snd (render_frame e (filename, lineno, funcname, text)) =
     evs @ [Write ([TAB, TAB] @ u ''# Source code unavailable'' @ [NL]), Write [NL]]"
proof -
  let ?head = "[set_color e Default,
           print_end ([TAB] @ u ''File ''),
           set_color e Filename,
           call_write_filename e filename (Some lineno),
           set_color e Default,
           print_end (u '', line ''),
           set_color e Lineno,
           print_end (py_str_int lineno),
           set_color e Default,
           print_end (u '', in ''),
           set_color e Funcname,
           print_end funcname,
           set_color e Default,
           print_line (u '':''),
           set_color e Default]"
  let ?line = "[Write ([TAB, TAB] @ u ''# Source code unavailable'' @ [NL])]"
  have "render_frame e (filename, lineno, funcname, text) =
      stmts (?head @ [(None, ?line), (None, [Write [NL]])])"
    by (simp add: render_frame_def assms(1) print_line_def)
  then have eq: "render_frame e (filename, lineno, funcname, text) =
      (case stmts ?head of (None, ev) \<Rightarrow> (None, ev @ ?line @ [Write [NL]])
       | (Some err, ev) \<Rightarrow> (Some err, ev))"
    by (simp only: stmts_append_ok)
  show ?thesis
  proof (cases "stmts ?head")
    case (Pair r ev)
    with eq assms(2) have "r = None"
      by (cases r) auto
    with eq Pair show ?thesis
      by auto
  qed
qed

text \<open>
  C9. In the frame loop a source text that is the empty string is rendered exactly as a
  source text that is \<^verbatim>\<open>None\<close>: when the frame's heading is written without error, the
  line after it is the placeholder \<^verbatim>\<open># Source code unavailable\<close> behind two tabs,
  followed by the blank line.
\<close>

theorem empty_source_text_is_unavailable:
  "render_frame e (filename, lineno, funcname, TStr []) =
     render_frame e (filename, lineno, funcname, TNone) \<and>
   (fst (render_frame e (filename, lineno, funcname, TStr [])) = None \<longrightarrow>
      (\<exists>evs. snd (render_frame e (filename, lineno, funcname, TStr [])) =
         evs @ [Write ([TAB, TAB] @ u ''# Source code unavailable'' @ [NL]), Write [NL]]))"
proof (intro conjI impI)
  show "render_frame e (filename, lineno, funcname, TStr []) =
     render_frame e (filename, lineno, funcname, TNone)"
    by (simp add: render_frame_def decoded_def text_or_def)
next
  assume "fst (render_frame e (filename, lineno, funcname, TStr [])) = None"
  then show "\<exists>evs. snd (render_frame e (filename, lineno, funcname, TStr [])) =
         evs @ [Write ([TAB, TAB] @ u ''# Source code unavailable'' @ [NL]), Write [NL]]"
    by (intro render_frame_unavailable) (simp_all add: decoded_def text_or_def)
qed

theorem empty_source_text_is_unavailable_witness:
  "render_frame demo_env (u ''<stdin>'', 1, u ''<module>'', TStr []) =
     (None,
      [SetColor (1, 0, 0), Write ([TAB] @ u ''File ''), SetColor (1 / 2, 0, 0),
       Write (u ''<stdin>''), SetColor (1, 0, 0), Write (u '', line ''),
       SetColor (1 / 2, 0, 1 / 2), Write (u ''1''), SetColor (1, 0, 0), Write (u '', in ''),
       SetColor (1 / 2, 0, 1 / 2), Write (u ''<module>''), SetColor (1, 0, 0),
       Write (u '':'' @ [NL]), SetColor (1, 0, 0),
       Write ([TAB, TAB] @ u ''# Source code unavailable'' @ [NL]), Write [NL]]) \<and>
   render_frame demo_env (u ''<stdin>'', 1, u ''<module>'', TNone) =
     render_frame demo_env (u ''<stdin>'', 1, u ''<module>'', TStr [])"
proof -
  have "render_frame demo_env (u ''<stdin>'', 1, u ''<module>'', TStr []) =
     (None,
      [SetColor (1, 0, 0), Write ([TAB] @ u ''File ''), SetColor (1 / 2, 0, 0),
       Write (u ''<stdin>''), SetColor (1, 0, 0), Write (u '', line ''),
       SetColor (1 / 2, 0, 1 / 2), Write (u ''1''), SetColor (1, 0, 0), Write (u '', in ''),
       SetColor (1 / 2, 0, 1 / 2), Write (u ''<module>''), SetColor (1, 0, 0),
       Write (u '':'' @ [NL]), SetColor (1, 0, 0),
       Write ([TAB, TAB] @ u ''# Source code unavailable'' @ [NL]), Write [NL]])"
    by (simp add: py_defs demo_defs)
  then show ?thesis
    using empty_source_text_is_unavailable [of demo_env "u ''<stdin>''" 1 "u ''<module>''"]
    by simp
qed

section \<open>The display hook\<close>

lemma displayhook_builtins:
  assumes "obj \<noteq> PyNone"
  shows "snd (displayhook e obj b) =
     b\<lparr>b_Out := Some (Out_list b @ [obj]), b_underscore := Some obj\<rparr>"
  using assms by (simp add: displayhook_def Out_list_def Let_def split: option.split)

lemma displayhook_index:
  assumes "obj \<noteq> PyNone"
  shows "\<exists>evs. snd (fst (displayhook e obj b)) =
     SetColor (0, 1 / 2, 0) #
     Write (u ''Out['' @ py_str_int (int (length (Out_list b))) @ u '']'') # evs"
  using assms
  by (simp add: displayhook_def Out_list_def Let_def console_set_color_def print_end_def
      case_prod_beta split: option.split)

lemma display_all_Cons:
  "snd (display_all e (v # vs) b) = snd (display_all e vs (snd (displayhook e v b)))"
  by (simp add: case_prod_beta)

lemma display_all_snoc:
  "snd (display_all e (vs @ [v]) b) = snd (displayhook e v (snd (display_all e vs b)))"
  by (induction vs arbitrary: b) (simp_all add: case_prod_beta)

lemma display_all_Out:
  assumes "\<forall>v \<in> set vs. v \<noteq> PyNone"
  shows "Out_list (snd (display_all e vs b)) = Out_list b @ vs"
  using assms
proof (induction vs arbitrary: b)
  case Nil
  then show ?case by simp
next
  case (Cons v vs)
  then have "v \<noteq> PyNone" and rest: "\<forall>x \<in> set vs. x \<noteq> PyNone"
    by simp_all
  have "Out_list (snd (displayhook e v b)) = Out_list b @ [v]"
    using \<open>v \<noteq> PyNone\<close> by (simp add: displayhook_builtins Out_list_def)
  then show ?case
    by (simp only: display_all_Cons Cons.IH [OF rest] append_assoc append_Cons append_Nil)
qed

lemma display_all_underscore:
  assumes "\<forall>v \<in> set vs. v \<noteq> PyNone" and "vs \<noteq> []"
  shows "b_underscore (snd (display_all e vs b)) = Some (last vs)"
  using assms
proof (induction vs rule: rev_induct)
  case Nil
  then show ?case by simp
next
  case (snoc v vs)
  then show ?case
    by (simp add: display_all_snoc displayhook_builtins)
qed

text \<open>
  C5. In a session whose history is empty (\<^verbatim>\<open>Out\<close> absent or \<open>[]\<close>), after the display
  hook has been called on the values \<open>vs\<close>, none of them \<^verbatim>\<open>None\<close>, in order: \<^verbatim>\<open>Out\<close> is
  exactly \<open>vs\<close>, \<^verbatim>\<open>_\<close> is the last of them, and the call for the value at position \<open>k\<close>
  stores it at index \<open>k\<close> and begins its output with the colour 0, 0.5, 0 and
  \<^verbatim>\<open>Out[k]\<close>.
\<close>

theorem displayhook_history:
  assumes "\<forall>v \<in> set vs. v \<noteq> PyNone" and "Out_list b = []"
  shows "Out_list (snd (display_all e vs b)) = vs \<and>
    (vs \<noteq> [] \<longrightarrow> b_underscore (snd (display_all e vs b)) = Some (last vs)) \<and>
    (\<forall>k < length vs.
       Out_list (snd (display_all e (take (Suc k) vs) b)) ! k = vs ! k \<and>
       (\<exists>evs. snd (fst (displayhook e (vs ! k) (snd (display_all e (take k vs) b)))) =
          SetColor (0, 1 / 2, 0) # Write (u ''Out['' @ py_str_int (int k) @ u '']'') # evs))"
proof (intro conjI allI impI)
  show "Out_list (snd (display_all e vs b)) = vs"
    using display_all_Out [OF assms(1)] assms(2) by simp
next
  assume "vs \<noteq> []"
  then show "b_underscore (snd (display_all e vs b)) = Some (last vs)"
    by (rule display_all_underscore [OF assms(1)])
next
  fix k
  assume k: "k < length vs"
  have sub: "\<forall>v \<in> set (take n vs). v \<noteq> PyNone" for n
    using assms(1) by (auto dest: in_set_takeD)
  show "Out_list (snd (display_all e (take (Suc k) vs) b)) ! k = vs ! k"
    using k by (simp add: display_all_Out [OF sub] assms(2))
next
  fix k
  assume k: "k < length vs"
  have sub: "\<forall>v \<in> set (take n vs). v \<noteq> PyNone" for n
    using assms(1) by (auto dest: in_set_takeD)
  have len: "length (Out_list (snd (display_all e (take k vs) b))) = k"
    using k by (simp add: display_all_Out [OF sub] assms(2))
  have "vs ! k \<noteq> PyNone"
    using assms(1) k by simp
  from displayhook_index [OF this, of e "snd (display_all e (take k vs) b)"]
  show "\<exists>evs. snd (fst (displayhook e (vs ! k) (snd (display_all e (take k vs) b)))) =
          SetColor (0, 1 / 2, 0) # Write (u ''Out['' @ py_str_int (int k) @ u '']'') # evs"
    by (simp add: len)
qed

theorem displayhook_history_witness:
  "Out_list (snd (display_all demo_env [demo_two, demo_unprintable] demo_fresh)) =
     [demo_two, demo_unprintable] \<and>
   b_underscore (snd (display_all demo_env [demo_two, demo_unprintable] demo_fresh)) =
     Some demo_unprintable \<and>
   (\<exists>evs. snd (fst (displayhook demo_env demo_unprintable
                      (snd (display_all demo_env [demo_two] demo_fresh)))) =
      SetColor (0, 1 / 2, 0) # Write (u ''Out[1]'') # evs)"
proof -
  have h1: "\<forall>v \<in> set [demo_two, demo_unprintable]. v \<noteq> PyNone"
    by (simp add: demo_value_defs)
  have h2: "Out_list demo_fresh = []"
    by (simp add: Out_list_def demo_fresh_def)
  have one: "py_str_int 1 = u ''1''"
    by (simp add: py_str_int_def str_nat.simps u_def)
  from displayhook_history [OF h1 h2, of demo_env]
  have all: "Out_list (snd (display_all demo_env [demo_two, demo_unprintable] demo_fresh)) =
        [demo_two, demo_unprintable] \<and>
      b_underscore (snd (display_all demo_env [demo_two, demo_unprintable] demo_fresh)) =
        Some (last [demo_two, demo_unprintable]) \<and>
      (\<forall>k < length [demo_two, demo_unprintable].
         Out_list (snd (display_all demo_env (take (Suc k) [demo_two, demo_unprintable])
                          demo_fresh)) ! k = [demo_two, demo_unprintable] ! k \<and>
         (\<exists>evs. snd (fst (displayhook demo_env ([demo_two, demo_unprintable] ! k)
                            (snd (display_all demo_env (take k [demo_two, demo_unprintable])
                                    demo_fresh)))) =
            SetColor (0, 1 / 2, 0) # Write (u ''Out['' @ py_str_int (int k) @ u '']'') # evs))"
    by simp
  then have "\<exists>evs. snd (fst (displayhook demo_env ([demo_two, demo_unprintable] ! 1)
                            (snd (display_all demo_env (take 1 [demo_two, demo_unprintable])
                                    demo_fresh)))) =
            SetColor (0, 1 / 2, 0) # Write (u ''Out['' @ py_str_int (int 1) @ u '']'') # evs"
    by (metis One_nat_def length_Cons lessI list.size(3))
  then have "\<exists>evs. snd (fst (displayhook demo_env demo_unprintable
                      (snd (display_all demo_env [demo_two] demo_fresh)))) =
      SetColor (0, 1 / 2, 0) # Write (u ''Out[1]'') # evs"
    by (simp add: one u_def)
  with all show ?thesis
    by simp
qed

text \<open>
  C8. On \<^verbatim>\<open>None\<close> the display hook returns at once: nothing is written, and \<^verbatim>\<open>Out\<close> and
  \<^verbatim>\<open>_\<close> are as before.
\<close>

theorem displayhook_None:
  "displayhook e PyNone b = ((None, []), b)"
  by (simp add: displayhook_def)



section \<open>Shortened paths\<close>

lemma startswith_length:
  assumes "startswith s p"
  shows "length p \<le> length s"
proof -
  from assms have "length (take (length p) s) = length p"
    by (simp add: startswith_def)
  then show ?thesis
    by simp
qed

lemma short_path_of_cases:
  "short_path_of e path =
     (if startswith path (APP_GROUP_DIR e) then drop (length (APP_GROUP_DIR e)) path
      else if startswith path (APP_DIR e) then drop (length (APP_DIR e)) path
      else path)"
  by (simp add: short_path_of_def REMOVE_PREFIXES_def)

lemma prefixes_nonempty: "APP_GROUP_DIR e \<noteq> []" "APP_DIR e \<noteq> []"
  by (simp_all add: APP_GROUP_DIR_def APP_DIR_def os_sep_def Let_def)

lemma drop_prefix_shorter:
  assumes "startswith s p" and "p \<noteq> []"
  shows "drop (length p) s \<noteq> s"
proof
  assume "drop (length p) s = s"
  then have "length s - length p = length s"
    by (metis length_drop)
  moreover have "0 < length p"
    using assms(2) by simp
  moreover have "length p \<le> length s"
    using assms(1) by (rule startswith_length)
  ultimately show False
    by arith
qed

lemma short_path_of_again:
  "short_path_of e q = q \<longleftrightarrow> \<not> startswith q (APP_GROUP_DIR e) \<and> \<not> startswith q (APP_DIR e)"
  using drop_prefix_shorter [of q "APP_GROUP_DIR e"] drop_prefix_shorter [of q "APP_DIR e"]
    prefixes_nonempty [of e]
  by (auto simp: short_path_of_cases)

text \<open>
  C7, as the code has it. A path that starts with \<^verbatim>\<open><\<close> and ends with \<^verbatim>\<open>>\<close> is printed as
  it is, with no link; any other path is written as a link whose text is the path
  without the first of the two root prefixes it starts with, and the path itself when
  it starts with neither. Shortening a shortened path changes nothing exactly when the
  shortened path starts with neither root prefix.
\<close>

theorem write_filename_shortens_once:
  "(is_marker path \<longrightarrow> write_filename e path lineno = (None, [Write path])) \<and>
   (\<not> is_marker path \<longrightarrow>
      write_filename e path lineno =
        (None, [WriteLink (short_path_of e path) (editor_url e path lineno)])) \<and>
   short_path_of e path =
     (if startswith path (APP_GROUP_DIR e) then drop (length (APP_GROUP_DIR e)) path
      else if startswith path (APP_DIR e) then drop (length (APP_DIR e)) path
      else path) \<and>
   (short_path_of e (short_path_of e path) = short_path_of e path \<longleftrightarrow>
      \<not> startswith (short_path_of e path) (APP_GROUP_DIR e) \<and>
      \<not> startswith (short_path_of e path) (APP_DIR e))"
  using short_path_of_again [of e "short_path_of e path"] short_path_of_cases [of e path]
  by (simp add: write_filename_def print_end_def)

theorem write_filename_shortens_once_witness:
  "is_marker (u ''<stdin>'') \<and>
   write_filename demo_env (u ''<stdin>'') 1 = (None, [Write (u ''<stdin>'')]) \<and>
   \<not> is_marker (u ''/h/a.py'') \<and>
   write_filename demo_env (u ''/h/a.py'') 3 =
     (None, [WriteLink (u ''a.py'') (editor_url demo_env (u ''/h/a.py'') 3)]) \<and>
   short_path_of demo_env (u ''/h/a.py'') = u ''a.py'' \<and>
   short_path_of demo_env (short_path_of demo_env (u ''/h/a.py'')) =
     short_path_of demo_env (u ''/h/a.py'')"
proof -
  have m: "is_marker (u ''<stdin>'')" and n: "\<not> is_marker (u ''/h/a.py'')"
    by (simp_all add: is_marker_def startswith_def endswith_def u_def)
  have s: "startswith (u ''/h/a.py'') (u ''/h/'')" "drop (length (u ''/h/'')) (u ''/h/a.py'') = u ''a.py''"
    "\<not> startswith (u ''a.py'') (u ''/h/'')" "\<not> startswith (u ''a.py'') (u ''/app/'')"
    by (simp_all add: startswith_def u_def)
  from write_filename_shortens_once [of "u ''<stdin>''" demo_env 1] m
  have w1: "write_filename demo_env (u ''<stdin>'') 1 = (None, [Write (u ''<stdin>'')])"
    by simp
  from write_filename_shortens_once [of "u ''/h/a.py''" demo_env 3]
  have sh: "short_path_of demo_env (u ''/h/a.py'') = u ''a.py''"
    by (simp add: s demo_prefixes)
  from write_filename_shortens_once [of "u ''/h/a.py''" demo_env 3] n
  have w2: "write_filename demo_env (u ''/h/a.py'') 3 =
      (None, [WriteLink (u ''a.py'') (editor_url demo_env (u ''/h/a.py'') 3)])"
    by (simp add: sh)
  from write_filename_shortens_once [of "u ''/h/a.py''" demo_env 3]
  have "(short_path_of demo_env (short_path_of demo_env (u ''/h/a.py'')) =
      short_path_of demo_env (u ''/h/a.py'')) =
     (\<not> startswith (short_path_of demo_env (u ''/h/a.py'')) (APP_GROUP_DIR demo_env) \<and>
      \<not> startswith (short_path_of demo_env (u ''/h/a.py'')) (APP_DIR demo_env))"
    by blast
  then have idem: "short_path_of demo_env (short_path_of demo_env (u ''/h/a.py'')) =
      short_path_of demo_env (u ''/h/a.py'')"
    by (simp only: sh demo_prefixes s simp_thms)
  show ?thesis
    using m n w1 w2 sh idem by simp
qed

text \<open>
  C7 as stated fails: under the home directory \<^verbatim>\<open>/h\<close> the path \<^verbatim>\<open>/h//h/x\<close> is shortened to
  \<^verbatim>\<open>/h/x\<close>, and shortening that gives \<^verbatim>\<open>x\<close>.
\<close>

theorem shortening_not_idempotent:
  "short_path_of demo_env (u ''/h//h/x'') = u ''/h/x'' \<and>
   short_path_of demo_env (u ''/h/x'') = u ''x'' \<and>
   short_path_of demo_env (short_path_of demo_env (u ''/h//h/x'')) \<noteq>
     short_path_of demo_env (u ''/h//h/x'')"
  by (simp add: short_path_of_cases demo_prefixes) (simp add: startswith_def u_def)

section \<open>Blended colours\<close>

lemma decimal_round2_examples:
  "decimal_round2 0 = 0" "decimal_round2 (1 / 3) = 33 / 100"
  "decimal_round2 (2 / 3) = 67 / 100" "decimal_round2 (67 / 200) = 17 / 50"
  by code_simp+

text \<open>
  C6, as the code has it. For the tokens \<^verbatim>\<open>filename\<close>, \<^verbatim>\<open>lineno\<close> and \<^verbatim>\<open>funcname\<close>, which
  take the colour of the scopes \<^verbatim>\<open>default\<close>, \<^verbatim>\<open>number\<close> and \<^verbatim>\<open>function\<close>, and a theme that
  has \<^verbatim>\<open>error_text\<close> and that scope: the colour set is, channel by channel,
  \<^verbatim>\<open>round((s + r) / 2, 2)\<close>, where \<open>s\<close> and \<open>r\<close> are the channels of the scope colour and of
  the error colour after \<^verbatim>\<open>hex2rgb\<close> has rounded each of them to 2 digits. The result is
  a function of the theme and the token. The arithmetic is the one of the environment.
\<close>

theorem set_color_blend:
  assumes "t = Filename \<or> t = Lineno \<or> t = Funcname"
    and "theme_dict e (u ''error_text'') = Some h_err"
    and "theme_scopes e (thcolor t) = Some h_scope"
    and "colorWithHexString e h_scope = (r1, g1, b1, a1)"
    and "colorWithHexString e h_err = (r2, g2, b2, a2)"
  shows "set_color e t =
     (None,
      [SetColor
         (float_round2 e (float_div e (float_add e (float_round2 e r1) (float_round2 e r2)) 2),
          float_round2 e (float_div e (float_add e (float_round2 e g1) (float_round2 e g2)) 2),
          float_round2 e
            (float_div e (float_add e (float_round2 e b1) (float_round2 e b2)) 2))]) \<and>
    thcolor Filename = u ''default'' \<and> thcolor Lineno = u ''number'' \<and>
    thcolor Funcname = u ''function''"
  using assms
  by (auto simp: set_color_def hex2rgb_def mean_color_def console_set_color_def thcolor_def)

theorem set_color_blend_witness:
  "theme_dict demo_blend_env (u ''error_text'') = Some (u ''#000000'') \<and>
   theme_scopes demo_blend_env (thcolor Filename) = Some (u ''#aa0000'') \<and>
   colorWithHexString demo_blend_env (u ''#aa0000'') = (170 / 255, 0, 0, 1) \<and>
   colorWithHexString demo_blend_env (u ''#000000'') = (0, 0, 0, 1) \<and>
   set_color demo_blend_env Filename =
     (None,
      [SetColor (decimal_round2 ((decimal_round2 (170 / 255) + decimal_round2 0) / 2),
                 decimal_round2 ((decimal_round2 0 + decimal_round2 0) / 2),
                 decimal_round2 ((decimal_round2 0 + decimal_round2 0) / 2))])"
proof -
  have k: "theme_dict demo_blend_env (u ''error_text'') = Some (u ''#000000'')"
    by (simp add: demo_blend_env_def demo_env_def u_def)
  have sc: "theme_scopes demo_blend_env (thcolor Filename) = Some (u ''#aa0000'')"
    by (simp add: demo_blend_env_def demo_env_def thcolor_def u_def)
  have c1: "colorWithHexString demo_blend_env (u ''#aa0000'') = (170 / 255, 0, 0, 1)"
    by (simp add: demo_blend_env_def demo_env_def demo_blend_rgba_def)
  have c2: "colorWithHexString demo_blend_env (u ''#000000'') = (0, 0, 0, 1)"
    by (simp add: demo_blend_env_def demo_env_def demo_blend_rgba_def u_def)
  have ops: "float_round2 demo_blend_env = decimal_round2" "float_add demo_blend_env = plus"
    "float_div demo_blend_env = divide"
    by (simp_all add: demo_blend_env_def demo_env_def)
  from set_color_blend [OF _ k sc c1 c2]
  have "set_color demo_blend_env Filename =
     (None,
      [SetColor (decimal_round2 ((decimal_round2 (170 / 255) + decimal_round2 0) / 2),
                 decimal_round2 ((decimal_round2 0 + decimal_round2 0) / 2),
                 decimal_round2 ((decimal_round2 0 + decimal_round2 0) / 2))])"
    by (simp add: ops)
  with k sc c1 c2 show ?thesis
    by simp
qed

text \<open>
  C6 as stated fails: the colours are rounded before they are blended. For a scope
  colour with the red channel 170/255 over a black error colour, the code sets the red
  channel to 0.34 (the rounded half of 0.67), and the mean of the two colours, 1/3,
  rounded to 2 digits is 0.33. On floats the code gives 0.34 as well: the exact value of
  the half of the float 0.67 lies above 0.335.
\<close>

theorem set_color_blend_rounds_first:
  "set_color demo_blend_env Filename = (None, [SetColor (34 / 100, 0, 0)]) \<and>
   decimal_round2 ((170 / 255 + 0) / 2) = 33 / 100 \<and>
   set_color demo_blend_env Filename \<noteq>
     (None,
      [SetColor (decimal_round2 ((170 / 255 + 0) / 2), decimal_round2 ((0 + 0) / 2),
                 decimal_round2 ((0 + 0) / 2))])"
  by (simp add: py_defs demo_defs demo_blend_env_def demo_blend_rgba_def
      decimal_round2_examples)

end
